theory Spec2Isabelle
  imports Complex_Main "HOL-Library.Word"
begin

section \<open>esshader: a shallow embedding of \<^verbatim>\<open>src/esshader.c\<close>\<close>

text \<open>
  The program is one C file that drives X11, EGL and OpenGL ES. Its own logic is small:
  process-wide variables (the cached viewport size, the uniform locations, the frame
  counter), a handful of functions that update them and issue library calls, and the
  event and render loop of \<^verbatim>\<open>main\<close>.

  The embedding keeps the process-wide variables in a record and makes every library
  call an entry of a trace, appended in program order, so that "which calls were issued,
  with which arguments, in which order" is a statement about a list. What the libraries
  answer (success flags, resolved locations, the display size, clock samples, the queued
  events) is input to the model.
\<close>

subsection \<open>C scalar types\<close>

text \<open>
  A C \<^verbatim>\<open>float\<close> is represented by the rational number it denotes (only finite values
  occur in what is modelled). The conversion of an \<^verbatim>\<open>int\<close> to \<^verbatim>\<open>float\<close>
  is the IEEE-754 binary32 one: 24 significant bits, round to nearest, ties to even.
  (C leaves the direction of the rounding to the implementation; in every direction an
  integer that needs more than 24 significant bits is not converted to itself.)
  \<open>float_shift a\<close> is the number of low bits of \<open>a\<close> that do not fit.
\<close>

type_synonym cfloat = rat

function float_shift :: "nat \<Rightarrow> nat" where
  "float_shift a = (if a < 16777216 then 0 else Suc (float_shift (a div 2)))"
  by pat_completeness auto
termination
  by (relation "measure id") auto

declare float_shift.simps [simp del]

definition float_of_int :: "int \<Rightarrow> cfloat" where
  "float_of_int n =
     (let a = nat \<bar>n\<bar>;
          e = float_shift a;
          q = a div 2 ^ e;
          r = a mod 2 ^ e;
          q' = (if 2 ^ e < 2 * r \<or> (2 * r = 2 ^ e \<and> odd q) then q + 1 else q)
      in of_int (sgn n * int (q' * 2 ^ e)))"

text \<open>
  A \<^verbatim>\<open>double\<close> or \<^verbatim>\<open>float\<close> inside a computation is the ratio of an integer and a
  positive natural number. \<open>round_ratio p\<close> rounds a ratio to \<open>p\<close> significant bits, to
  nearest and ties to even: \<open>leading_exponent a d\<close> is the exponent \<open>l\<close> of the leading
  bit of \<open>a / d\<close> (\<open>2^l \<le> a / d < 2^(l + 1)\<close>, found from the bit lengths of \<open>a\<close> and
  \<open>d\<close>), and \<open>round_at e\<close> rounds \<open>a / d\<close> to a multiple of \<open>2^e\<close>. The operations
  of \<^verbatim>\<open>double\<close> round to 53 bits, the cast to \<^verbatim>\<open>float\<close> to 24. The exponent range
  is not modelled: the values of \<open>timespec_diff\<close> on 64-bit fields are far inside it, and
  its only division is by the constant \<open>10^9\<close>.
\<close>

type_synonym ratio = "int \<times> nat"

function bitlen :: "nat \<Rightarrow> nat" where
  "bitlen a = (if a = 0 then 0 else Suc (bitlen (a div 2)))"
  by pat_completeness auto
termination
  by (relation "measure id") auto

declare bitlen.simps [simp del]

definition leading_exponent_from :: "int \<Rightarrow> nat \<Rightarrow> nat \<Rightarrow> int" where
  "leading_exponent_from k a d =
     (if 0 \<le> k then (if d * 2 ^ nat k \<le> a then k else k - 1)
      else (if d \<le> a * 2 ^ nat (- k) then k else k - 1))"

definition leading_exponent :: "nat \<Rightarrow> nat \<Rightarrow> int" where
  "leading_exponent a d = leading_exponent_from (int (bitlen a) - int (bitlen d)) a d"

definition round_half_even :: "nat \<Rightarrow> nat \<Rightarrow> nat \<Rightarrow> nat" where
  "round_half_even q r den = (if den < 2 * r \<or> (2 * r = den \<and> odd q) then q + 1 else q)"

definition round_div :: "nat \<Rightarrow> nat \<Rightarrow> nat" where
  "round_div num den = round_half_even (num div den) (num mod den) den"

definition round_at :: "int \<Rightarrow> int \<Rightarrow> nat \<Rightarrow> nat \<Rightarrow> ratio" where
  "round_at e sg a d =
     (if e < 0 then (sg * int (round_div (a * 2 ^ nat (- e)) d), 2 ^ nat (- e))
      else (sg * int (round_div a (d * 2 ^ nat e) * 2 ^ nat e), 1))"

definition round_ratio :: "nat \<Rightarrow> ratio \<Rightarrow> ratio" where
  "round_ratio p x =
     (if fst x = 0 then (0, 1)
      else round_at (leading_exponent (nat \<bar>fst x\<bar>) (snd x) + 1 - int p) (sgn (fst x))
             (nat \<bar>fst x\<bar>) (snd x))"

definition rat_of_ratio :: "ratio \<Rightarrow> rat" where
  "rat_of_ratio x = of_int (fst x) / of_nat (snd x)"

definition double_of_int :: "int \<Rightarrow> ratio" where
  "double_of_int n = round_ratio 53 (n, 1)"

definition double_add :: "ratio \<Rightarrow> ratio \<Rightarrow> ratio" where
  "double_add x y =
     round_ratio 53 (fst x * int (snd y) + fst y * int (snd x), snd x * snd y)"

definition double_div :: "ratio \<Rightarrow> ratio \<Rightarrow> ratio" where
  "double_div x y =
     round_ratio 53 (sgn (fst y) * fst x * int (snd y), snd x * nat \<bar>fst y\<bar>)"

definition float_of_double :: "ratio \<Rightarrow> cfloat" where
  "float_of_double x = rat_of_ratio (round_ratio 24 x)"

text \<open>
  \<^verbatim>\<open>GLint\<close>, \<^verbatim>\<open>GLsizei\<close> and the window sizes are C \<^verbatim>\<open>int\<close>s that the
  program only stores, compares and passes on; they are HOL integers. The frame counter
  is the one integer the program does arithmetic on (\<^verbatim>\<open>++frames\<close>): it is a 32-bit
  word, read as signed, so that the increment wraps as the machine's does (in C the
  increment of \<^verbatim>\<open>INT_MAX\<close> is undefined). \<open>glsizei_of_size\<close> is the cast
  \<^verbatim>\<open>(GLsizei)\<close> of a \<^verbatim>\<open>size_t\<close>: the low 32 bits, read as signed.
\<close>

type_synonym cint = "32 word"

definition glsizei_of_size :: "nat \<Rightarrow> int" where
  "glsizei_of_size n = sint (word_of_nat n :: cint)"

subsection \<open>Library calls and events\<close>

datatype shader_type = GL_VERTEX_SHADER | GL_FRAGMENT_SHADER

datatype call =
    XOpenDisplay
  | EglGetDisplay
  | EglBindAPI
  | EglInitialize
  | EglChooseConfig
  | EglCreateContext
  | EglGetConfigAttrib
  | XGetVisualInfo
  | XCreateColormap
  | XCreateWindow int int int int
  | XStoreName string
  | XMapWindow
  | XFlush
  | EglCreateWindowSurface
  | EglMakeCurrent
  | GlCreateShader shader_type
  | GlShaderSource shader_type "string list" "int list"
  | GlCompileShader shader_type
  | GlCreateProgram
  | GlAttachShader shader_type
  | GlLinkProgram
  | GlDeleteShader shader_type
  | GlReleaseShaderCompiler
  | GlUseProgram
  | GlValidateProgram
  | XGetWindowAttributes
  | GlUniform1f int cfloat
  | GlUniform3f int cfloat cfloat cfloat
  | GlViewport int int int int
  | GlClearColor cfloat cfloat cfloat cfloat
  | GlClear
  | GlEnableVertexAttribArray int
  | GlVertexAttribPointer int nat "cfloat list"
  | GlDrawArrays nat nat
  | EglSwapBuffers
  | GlDeleteProgram
  | EglDestroyContext
  | EglDestroySurface
  | EglTerminate
  | XDestroyWindow
  | XCloseDisplay
  | Info_window_size int int
  | Fprintf_stderr string

text \<open>
  An X event as \<^verbatim>\<open>process_event\<close> sees it: its type, the size a
  \<^verbatim>\<open>ConfigureNotify\<close> reports, and for a \<^verbatim>\<open>KeyPress\<close> the key symbol that
  \<^verbatim>\<open>XLookupString\<close> decodes.
\<close>

datatype xevent =
    ConfigureNotify int int
  | KeyPress nat
  | OtherEvent nat

definition XK_Escape :: nat where
  "XK_Escape = 65307"

definition XK_q :: nat where
  "XK_q = 113"

subsection \<open>The process-wide variables\<close>

record state =
  viewport_width :: int
  viewport_height :: int
  attrib_position :: int
  sampler_channel :: "int list"
  uniform_cres :: int
  uniform_frame :: int
  uniform_ctime :: int
  uniform_date :: int
  uniform_gtime :: int
  uniform_mouse :: int
  uniform_res :: int
  uniform_srate :: int
  frames :: cint
  x_queue :: "xevent list"
  trace :: "call list"

text \<open>
  The values the C initialisers give: the viewport size starts at \<open>(-1, -1)\<close>, the frame
  counter at \<open>0\<close>, every other static at zero. \<open>x_queue\<close> is the event queue of the X
  connection (what \<^verbatim>\<open>XPending\<close> counts and \<^verbatim>\<open>XNextEvent\<close> pops); \<open>trace\<close> is
  the list of library calls issued so far.
\<close>

definition initial_state :: state where
  "initial_state =
     \<lparr>viewport_width = -1, viewport_height = -1, attrib_position = 0,
      sampler_channel = [0, 0, 0, 0], uniform_cres = 0, uniform_frame = 0,
      uniform_ctime = 0, uniform_date = 0, uniform_gtime = 0, uniform_mouse = 0,
      uniform_res = 0, uniform_srate = 0, frames = 0, x_queue = [], trace = []\<rparr>"

definition emit :: "call \<Rightarrow> state \<Rightarrow> state" where
  "emit c s = s\<lparr>trace := trace s @ [c]\<rparr>"

text \<open>
  \<^verbatim>\<open>die\<close> prints its message and exits the process at once: the result is the left
  injection, carrying the message and the state the process died in.
\<close>

type_synonym fatal = "string \<times> state"

definition die :: "string \<Rightarrow> state \<Rightarrow> fatal + state" where
  "die msg s = Inl (msg, emit (Fprintf_stderr msg) s)"

subsection \<open>\<^verbatim>\<open>timespec_diff\<close>\<close>

text \<open>
  The difference is formed on the integer fields as the source does; the result is the
  \<^verbatim>\<open>double\<close> expression \<^verbatim>\<open>(double)d.tv_sec + (double)d.tv_nsec / 1000000000.0\<close>,
  each of its conversions and operations rounded.
\<close>

record timespec =
  tv_sec :: int
  tv_nsec :: int

definition timespec_diff :: "timespec \<Rightarrow> timespec \<Rightarrow> ratio" where
  "timespec_diff start stop =
     (let d = (if tv_nsec stop - tv_nsec start < 0
               then \<lparr>tv_sec = tv_sec stop - tv_sec start - 1,
                     tv_nsec = tv_nsec stop - tv_nsec start + 1000000000\<rparr>
               else \<lparr>tv_sec = tv_sec stop - tv_sec start,
                     tv_nsec = tv_nsec stop - tv_nsec start\<rparr>)
      in double_add (double_of_int (tv_sec d))
           (double_div (double_of_int (tv_nsec d)) (1000000000, 1)))"

subsection \<open>\<^verbatim>\<open>resize_viewport\<close>\<close>

definition resize_viewport :: "int \<Rightarrow> int \<Rightarrow> state \<Rightarrow> state" where
  "resize_viewport w h s =
     (if viewport_width s \<noteq> w \<or> viewport_height s \<noteq> h
      then let s1 = emit (GlUniform3f (uniform_res s) (float_of_int w) (float_of_int h) 0) s;
               s2 = emit (GlViewport 0 0 w h) s1;
               s3 = s2\<lparr>viewport_width := w\<rparr>;
               s4 = s3\<lparr>viewport_height := h\<rparr>
           in emit (Info_window_size w h) s4
      else s)"

subsection \<open>\<^verbatim>\<open>process_event\<close> and \<^verbatim>\<open>process_events\<close>\<close>

text \<open>The result is \<open>False\<close> when the event asks the loop to stop.\<close>

fun process_event :: "xevent \<Rightarrow> state \<Rightarrow> bool \<times> state" where
  "process_event (ConfigureNotify w h) s = (True, resize_viewport w h s)"
| "process_event (KeyPress key) s =
     (if key = XK_Escape \<or> key = XK_q then (False, s) else (True, s))"
| "process_event (OtherEvent ty) s = (True, s)"

lemma x_queue_emit [simp]: "x_queue (emit c s) = x_queue s"
  by (simp add: emit_def)

lemma x_queue_resize_viewport [simp]: "x_queue (resize_viewport w h s) = x_queue s"
  by (simp add: resize_viewport_def Let_def)

lemma x_queue_process_event: "process_event ev s = (ok, s') \<Longrightarrow> x_queue s' = x_queue s"
  by (cases ev) (auto split: if_splits)

text \<open>
  The \<^verbatim>\<open>while (XPending(x_display))\<close> loop: while the queue is not empty, pop its
  head and process it. \<open>done_flag\<close> is the local \<^verbatim>\<open>done\<close>.
\<close>

function process_events_loop :: "bool \<Rightarrow> state \<Rightarrow> bool \<times> state" where
  "process_events_loop done_flag s =
     (case x_queue s of
        [] \<Rightarrow> (done_flag, s)
      | ev # rest \<Rightarrow>
          (case process_event ev (s\<lparr>x_queue := rest\<rparr>) of
             (ok, s') \<Rightarrow> process_events_loop (if \<not> ok then True else done_flag) s'))"
  by pat_completeness auto
termination
  apply (relation "measure (\<lambda>(d, s). length (x_queue s))")
   apply simp
  subgoal for done_flag s ev rest ok s'
    using x_queue_process_event [of ev "s\<lparr>x_queue := rest\<rparr>" ok s']
    by simp
  done

declare process_events_loop.simps [simp del]

definition process_events :: "state \<Rightarrow> bool \<times> state" where
  "process_events s =
     (case process_events_loop False s of (done_flag, s') \<Rightarrow> (\<not> done_flag, s'))"

subsection \<open>\<^verbatim>\<open>render\<close>\<close>

definition vertices :: "cfloat list" where
  "vertices = [-1, -1, 1, -1, -1, 1, 1, 1]"

definition render :: "cfloat \<Rightarrow> state \<Rightarrow> state" where
  "render abstime s =
     (let s1 = (if 0 \<le> uniform_gtime s then emit (GlUniform1f (uniform_gtime s) abstime) s
                else s);
          s2 = s1\<lparr>frames := frames s1 + 1\<rparr>;
          s3 = emit (GlUniform1f (uniform_frame s2) (float_of_int (sint (frames s2)))) s2;
          s4 = emit (GlClearColor 0 0 0 1) s3;
          s5 = emit GlClear s4;
          s6 = emit (GlEnableVertexAttribArray (attrib_position s5)) s5;
          s7 = emit (GlVertexAttribPointer (attrib_position s6) 2 vertices) s6;
          s8 = emit (GlDrawArrays 0 4) s7
      in emit EglSwapBuffers s8)"

subsection \<open>Shader sources and \<^verbatim>\<open>compile_shader\<close>\<close>

text \<open>
  A C string is the list of its characters before the terminating NUL, so
  \<^verbatim>\<open>strlen\<close> is its length. \<open>default_fragment_shader\<close>, the body the user supplies
  (or the built-in one of \<^verbatim>\<open>config.h\<close>), is a parameter of \<open>startup\<close>.
\<close>

definition common_shader_header :: string where
  "common_shader_header = ''#version 100\<newline>precision highp float;''"

definition vertex_shader_body :: string where
  "vertex_shader_body =
     ''attribute vec4 iPosition;'' @
     ''void main(){gl_Position=iPosition;}''"

definition fragment_shader_header :: string where
  "fragment_shader_header =
     ''uniform vec3 iResolution;'' @
     ''uniform float iTime;'' @
     ''uniform float iFrame;'' @
     ''uniform float iChannelTime[4];'' @
     ''uniform vec4 iMouse;'' @
     ''uniform vec4 iDate;'' @
     ''uniform float iSampleRate;'' @
     ''uniform vec3 iChannelResolution[4];'' @
     ''uniform sampler2D iChannel0;'' @
     ''uniform sampler2D iChannel1;'' @
     ''uniform sampler2D iChannel2;'' @
     ''uniform sampler2D iChannel3;\<newline>''"

definition fragment_shader_footer :: string where
  "fragment_shader_footer =
     ''\<newline>void main(){mainImage(gl_FragColor,gl_FragCoord.xy);}''"

definition strlen :: "string \<Rightarrow> nat" where
  "strlen str = length str"

text \<open>
  What \<^verbatim>\<open>glShaderSource\<close> makes of its arguments: the source of the shader is the
  concatenation of the given strings, each cut at the length given for it; a string
  whose length is given as negative is taken up to its terminating NUL, that is whole.
\<close>

definition shader_source :: "string list \<Rightarrow> int list \<Rightarrow> string" where
  "shader_source sources srclens =
     concat (map (\<lambda>(n, src). if n < 0 then src else take (nat n) src) (zip srclens sources))"

text \<open>
  The answers of the libraries during start-up. Every flag is the success of the call
  it is named after; \<open>compile_status\<close> and \<open>shader_info_log\<close> are the driver's verdict
  on a shader source. Calls that only read an answer (\<^verbatim>\<open>glGetShaderiv\<close>,
  \<^verbatim>\<open>glGetProgramiv\<close>, the info logs, \<^verbatim>\<open>glGetAttribLocation\<close>,
  \<^verbatim>\<open>glGetUniformLocation\<close>, the display macros) are not entries of the trace: the
  model reads their answer from this record.
\<close>

record env =
  x_open_display :: bool
  egl_get_display :: bool
  egl_bind_api :: bool
  egl_initialize :: bool
  egl_choose_config :: bool
  egl_create_context :: bool
  egl_get_config_attrib :: bool
  x_get_visual_info :: bool
  display_width :: int
  display_height :: int
  egl_create_window_surface :: bool
  compile_status :: "shader_type \<Rightarrow> string \<Rightarrow> bool"
  shader_info_log :: "shader_type \<Rightarrow> string \<Rightarrow> string"
  link_status :: bool
  program_info_log :: string
  attrib_location :: "string \<Rightarrow> int"
  uniform_location :: "string \<Rightarrow> int"
  x_get_window_attributes :: "(int \<times> int) option"

text \<open>
  \<open>GL_INFO_LOG_LENGTH\<close> counts the log's characters and its terminating NUL, so
  \<^verbatim>\<open>len > 1\<close> says that the log is not empty.
\<close>

definition compile_shader :: "env \<Rightarrow> shader_type \<Rightarrow> nat \<Rightarrow> string list \<Rightarrow> state \<Rightarrow> fatal + state" where
  "compile_shader e ty nsources sources s =
     (let srcs = take nsources sources;
          srclens = map (\<lambda>src. glsizei_of_size (strlen src)) srcs;
          s1 = emit (GlCreateShader ty) s;
          s2 = emit (GlShaderSource ty srcs srclens) s1;
          s3 = emit (GlCompileShader ty) s2;
          success = compile_status e ty (shader_source srcs srclens)
      in if \<not> success
         then let log = shader_info_log e ty (shader_source srcs srclens);
                  len = length log + 1;
                  s4 = (if 1 < len then emit (Fprintf_stderr (log @ ''\<newline>\<newline>'')) s3 else s3)
              in die ''Error compiling shader.\<newline>'' s4
         else Inr s3)"

text \<open>The sources \<open>startup\<close> hands to \<open>compile_shader\<close> for the fragment stage.\<close>

definition fragment_sources :: "string \<Rightarrow> string list" where
  "fragment_sources default_fragment_shader =
     [common_shader_header, fragment_shader_header, default_fragment_shader,
      fragment_shader_footer]"

subsection \<open>\<^verbatim>\<open>startup\<close>\<close>

text \<open>
  The second half of \<open>startup\<close>, from the link of the program on; split off only to
  keep each definition readable.
\<close>

definition link_and_locate :: "env \<Rightarrow> state \<Rightarrow> fatal + state" where
  "link_and_locate e s =
     (let s1 = emit GlCreateProgram s;
          s2 = emit (GlAttachShader GL_VERTEX_SHADER) s1;
          s3 = emit (GlAttachShader GL_FRAGMENT_SHADER) s2;
          s4 = emit GlLinkProgram s3
      in if \<not> link_status e
         then let log = program_info_log e;
                  len = length log + 1;
                  s5 = (if 1 < len then emit (Fprintf_stderr (log @ ''\<newline>\<newline>'')) s4 else s4)
              in die ''Error linking shader program.\<newline>'' s5
         else
           let s5 = emit (GlDeleteShader GL_VERTEX_SHADER) s4;
               s6 = emit (GlDeleteShader GL_FRAGMENT_SHADER) s5;
               s7 = emit GlReleaseShaderCompiler s6;
               s8 = emit GlUseProgram s7;
               s9 = emit GlValidateProgram s8;
               s10 = s9\<lparr>attrib_position := attrib_location e ''iPosition'',
                        sampler_channel :=
                          [uniform_location e ''iChannel0'', uniform_location e ''iChannel1'',
                           uniform_location e ''iChannel2'', uniform_location e ''iChannel3''],
                        uniform_cres := uniform_location e ''iChannelResolution'',
                        uniform_frame := uniform_location e ''iFrame'',
                        uniform_ctime := uniform_location e ''iChannelTime'',
                        uniform_date := uniform_location e ''iDate'',
                        uniform_gtime := uniform_location e ''iTime'',
                        uniform_mouse := uniform_location e ''iMouse'',
                        uniform_res := uniform_location e ''iResolution'',
                        uniform_srate := uniform_location e ''iSampleRate''\<rparr>;
               s11 = emit XGetWindowAttributes s10
           in (case x_get_window_attributes e of
                 None \<Rightarrow> die ''Unable to get window size.\<newline>'' s11
               | Some (gw, gh) \<Rightarrow> Inr (resize_viewport gw gh s11)))"

text \<open>The middle of \<open>startup\<close>: the window, the surface and the two shader stages.\<close>

definition create_window :: "env \<Rightarrow> int \<Rightarrow> int \<Rightarrow> bool \<Rightarrow> string \<Rightarrow> state \<Rightarrow> fatal + state" where
  "create_window e width height fullscreen default_fragment_shader s =
     (let s1 = emit XCreateColormap s;
          window_width = (if fullscreen then display_width e else width);
          window_height = (if fullscreen then display_height e else height);
          s2 = emit (XCreateWindow 0 0 window_width window_height) s1;
          s3 = emit (XStoreName ''esshader'') s2;
          s4 = emit XMapWindow s3;
          s5 = emit XFlush s4;
          s6 = emit EglCreateWindowSurface s5
      in if \<not> egl_create_window_surface e
         then die ''Unable to create EGL window surface.\<newline>'' s6
         else
           let s7 = emit EglMakeCurrent s6 in
           (case compile_shader e GL_VERTEX_SHADER 2
                   [common_shader_header, vertex_shader_body] s7 of
              Inl f \<Rightarrow> Inl f
            | Inr s8 \<Rightarrow>
                (case compile_shader e GL_FRAGMENT_SHADER 4
                        (fragment_sources default_fragment_shader) s8 of
                   Inl f \<Rightarrow> Inl f
                 | Inr s9 \<Rightarrow> link_and_locate e s9)))"

definition startup :: "env \<Rightarrow> int \<Rightarrow> int \<Rightarrow> bool \<Rightarrow> string \<Rightarrow> state \<Rightarrow> fatal + state" where
  "startup e width height fullscreen default_fragment_shader s =
     (let s1 = emit XOpenDisplay s in
      if \<not> x_open_display e then die ''Unable to open X display.\<newline>'' s1 else
      let s2 = emit EglGetDisplay s1 in
      if \<not> egl_get_display e then die ''Unable to get EGL display.\<newline>'' s2 else
      let s3 = emit EglBindAPI s2 in
      if \<not> egl_bind_api e then die ''Unable to bind OpenGL ES API to EGL.\<newline>'' s3 else
      let s4 = emit EglInitialize s3 in
      if \<not> egl_initialize e then die ''Unable to initialize EGL.\<newline>'' s4 else
      let s5 = emit EglChooseConfig s4 in
      if \<not> egl_choose_config e
      then die ''Unable to find EGL framebuffer configuration.\<newline>'' s5 else
      let s6 = emit EglCreateContext s5 in
      if \<not> egl_create_context e then die ''Unable to create EGL context.\<newline>'' s6 else
      let s7 = emit EglGetConfigAttrib s6 in
      if \<not> egl_get_config_attrib e then die ''Unable to get X VisualID.\<newline>'' s7 else
      let s8 = emit XGetVisualInfo s7 in
      if \<not> x_get_visual_info e
      then die ''Unable to find matching XVisualInfo for framebuffer.\<newline>'' s8
      else create_window e width height fullscreen default_fragment_shader s8)"

subsection \<open>\<^verbatim>\<open>shutdown\<close>\<close>

definition shutdown :: "state \<Rightarrow> state" where
  "shutdown s =
     (let s1 = emit GlDeleteProgram s;
          s2 = emit EglDestroyContext s1;
          s3 = emit EglDestroySurface s2;
          s4 = emit EglTerminate s3;
          s5 = emit XDestroyWindow s4
      in emit XCloseDisplay s5)"

subsection \<open>\<^verbatim>\<open>main\<close>: the event and render loop\<close>

text \<open>
  How a run ends: \<open>Exit_success\<close> is \<^verbatim>\<open>return 0\<close>, \<open>Exit_failure msg\<close> is the
  \<^verbatim>\<open>exit(EXIT_FAILURE)\<close> of \<^verbatim>\<open>die\<close>, and \<open>Running\<close> says that the loop is still
  running when the events given to the model are used up.
\<close>

datatype outcome = Exit_success | Exit_failure string | Running

datatype loop_state = RUNNING | STOPPED | DIED string

text \<open>
  \<^verbatim>\<open>monotonic_time\<close> stores a sample of the clock, or dies when \<^verbatim>\<open>clock_gettime\<close>
  fails: a sample is \<open>Some t\<close>, the failure is \<open>None\<close>.

  One element of the input of the loop stands for one iteration: the events that have
  arrived on the X connection when the iteration polls, and the clock sample taken at its
  end. \<open>cur\<close> is the local variable of \<^verbatim>\<open>main\<close>; it is passed to
  \<^verbatim>\<open>timespec_diff\<close> before \<^verbatim>\<open>monotonic_time(&cur)\<close> has run once, so its first
  value is whatever the stack holds, an input of the model.
\<close>

fun main_loop :: "timespec \<Rightarrow> timespec \<Rightarrow> (xevent list \<times> timespec option) list \<Rightarrow> state
    \<Rightarrow> loop_state \<times> state" where
  "main_loop start cur [] s = (RUNNING, s)"
| "main_loop start cur ((arrived, clock) # rest) s =
     (case process_events (s\<lparr>x_queue := x_queue s @ arrived\<rparr>) of
        (ok, s1) \<Rightarrow>
          if \<not> ok then (STOPPED, s1)
          else
            let s2 = render (float_of_double (timespec_diff start cur)) s1 in
            (case clock of
               None \<Rightarrow>
                 (DIED ''clock_gettime on CLOCK_MONOTIC failed.\<newline>'',
                  emit (Fprintf_stderr ''clock_gettime on CLOCK_MONOTIC failed.\<newline>'') s2)
             | Some t \<Rightarrow> main_loop start t rest s2))"

text \<open>
  \<^verbatim>\<open>main\<close> from the call of \<^verbatim>\<open>startup\<close> on. The parsing of the command line before
  it yields the four values \<open>width\<close>, \<open>height\<close>, \<open>fullscreen\<close> and
  \<open>default_fragment_shader\<close>. The result is how the process ends and the calls it has
  issued; the messages that \<^verbatim>\<open>main\<close> prints to the standard output are left out.
\<close>

definition main :: "env \<Rightarrow> int \<Rightarrow> int \<Rightarrow> bool \<Rightarrow> string \<Rightarrow> timespec option \<Rightarrow> timespec
    \<Rightarrow> (xevent list \<times> timespec option) list \<Rightarrow> outcome \<times> call list" where
  "main e width height fullscreen default_fragment_shader start_clock cur0 iterations =
     (case startup e width height fullscreen default_fragment_shader initial_state of
        Inl (msg, s) \<Rightarrow> (Exit_failure msg, trace s)
      | Inr s \<Rightarrow>
          (case start_clock of
             None \<Rightarrow>
               (Exit_failure ''clock_gettime on CLOCK_MONOTIC failed.\<newline>'',
                trace (emit (Fprintf_stderr ''clock_gettime on CLOCK_MONOTIC failed.\<newline>'') s))
           | Some start \<Rightarrow>
               (case main_loop start cur0 iterations s of
                  (RUNNING, s') \<Rightarrow> (Running, trace s')
                | (DIED msg, s') \<Rightarrow> (Exit_failure msg, trace s')
                | (STOPPED, s') \<Rightarrow> (Exit_success, trace (shutdown s')))))"

section \<open>Properties\<close>

subsection \<open>Vocabulary of the statements\<close>

text \<open>
  The calls \<open>render\<close> issues after the two uniform uploads, and the upload of the elapsed
  time as the guard of \<open>render\<close> decides it.
\<close>

definition draw_calls :: "state \<Rightarrow> call list" where
  "draw_calls s =
     [GlClearColor 0 0 0 1, GlClear, GlEnableVertexAttribArray (attrib_position s),
      GlVertexAttribPointer (attrib_position s) 2 vertices, GlDrawArrays 0 4, EglSwapBuffers]"

definition time_upload :: "cfloat \<Rightarrow> state \<Rightarrow> call list" where
  "time_upload abstime s =
     (if 0 \<le> uniform_gtime s then [GlUniform1f (uniform_gtime s) abstime] else [])"

text \<open>
  Successive calls of \<open>render\<close>, one per elapsed-time value, and the calls that the
  \<open>k\<close>-th of them (counted from 1) adds to the trace.
\<close>

fun renders :: "cfloat list \<Rightarrow> state \<Rightarrow> state" where
  "renders [] s = s"
| "renders (t # ts) s = renders ts (render t s)"

definition calls_of_render :: "nat \<Rightarrow> cfloat list \<Rightarrow> state \<Rightarrow> call list" where
  "calls_of_render k ts s =
     drop (length (trace (renders (take (k - 1) ts) s))) (trace (renders (take k ts) s))"

text \<open>
  Two states for concrete runs: one in which the uniforms of the resolution, the time and
  the frame count resolved to the locations 0, 1 and 2, and one in which the shader uses
  none of them, so that \<^verbatim>\<open>glGetUniformLocation\<close> answered \<open>-1\<close> for each.
\<close>

definition example_state :: state where
  "example_state = initial_state\<lparr>uniform_res := 0, uniform_gtime := 1, uniform_frame := 2\<rparr>"

definition absent_state :: state where
  "absent_state = initial_state\<lparr>uniform_res := -1, uniform_gtime := -1, uniform_frame := -1\<rparr>"

definition many_frames :: "cfloat list" where
  "many_frames = replicate 16777217 0"

subsection \<open>What \<open>render\<close> and \<open>resize_viewport\<close> do to the state\<close>

lemma render_eq:
  "render abstime s =
     s\<lparr>frames := frames s + 1,
       trace := trace s @ time_upload abstime s @
         GlUniform1f (uniform_frame s) (float_of_int (sint (frames s + 1))) # draw_calls s\<rparr>"
  by (simp add: render_def emit_def Let_def time_upload_def draw_calls_def)

lemma resize_viewport_eq:
  "resize_viewport w h s =
     (if viewport_width s = w \<and> viewport_height s = h then s
      else s\<lparr>viewport_width := w, viewport_height := h,
             trace := trace s @
               [GlUniform3f (uniform_res s) (float_of_int w) (float_of_int h) 0,
                GlViewport 0 0 w h, Info_window_size w h]\<rparr>)"
  by (simp add: resize_viewport_def emit_def Let_def)

subsection \<open>Conversion of the counter to \<^verbatim>\<open>float\<close>\<close>

lemma float_shift_small: "a < 16777216 \<Longrightarrow> float_shift a = 0"
  by (subst float_shift.simps) simp

lemma float_shift_step: "16777216 \<le> a \<Longrightarrow> float_shift a = Suc (float_shift (a div 2))"
  by (subst float_shift.simps) simp

lemma float_of_int_exact: "\<bar>n\<bar> \<le> 16777216 \<Longrightarrow> float_of_int n = of_int n"
proof (cases "\<bar>n\<bar> = 16777216")
  case True
  have e: "float_shift 16777216 = 1"
    by (simp add: float_shift_step float_shift_small)
  from True have "n = 16777216 \<or> n = - 16777216" by linarith
  then show ?thesis
    by (auto simp: float_of_int_def Let_def e)
next
  case False
  assume "\<bar>n\<bar> \<le> 16777216"
  with False have "nat \<bar>n\<bar> < 16777216" by linarith
  then have e: "float_shift (nat \<bar>n\<bar>) = 0"
    by (rule float_shift_small)
  show ?thesis
    by (simp add: float_of_int_def Let_def e sgn_if)
qed

lemma float_of_int_16777217: "float_of_int 16777217 = 16777216"
proof -
  have e: "float_shift 16777217 = 1"
    by (simp add: float_shift_step float_shift_small)
  show ?thesis
    by (simp add: float_of_int_def Let_def e)
qed

lemma renders_snoc: "renders (ts @ [t]) s = render t (renders ts s)"
  by (induction ts arbitrary: s) simp_all

lemma renders_fields:
  "frames (renders ts s) = frames s + of_nat (length ts) \<and>
   uniform_gtime (renders ts s) = uniform_gtime s \<and>
   uniform_frame (renders ts s) = uniform_frame s \<and>
   attrib_position (renders ts s) = attrib_position s"
  by (induction ts arbitrary: s) (simp_all add: render_eq)

lemma calls_of_render_eq:
  assumes "0 < k" "k \<le> length ts"
  shows "calls_of_render k ts s =
    time_upload (ts ! (k - 1)) s @
      GlUniform1f (uniform_frame s) (float_of_int (sint (frames s + of_nat k))) # draw_calls s"
proof -
  from assms obtain j where k: "k = Suc j" and j: "j < length ts"
    by (cases k) auto
  have "take (Suc j) ts = take j ts @ [ts ! j]"
    using j by (simp add: take_Suc_conv_app_nth)
  then have "renders (take (Suc j) ts) s = render (ts ! j) (renders (take j ts) s)"
    by (simp add: renders_snoc)
  then show ?thesis
    using j renders_fields [of "take j ts" s]
    by (simp add: calls_of_render_def k render_eq time_upload_def draw_calls_def ac_simps)
qed

lemma sint_of_nat_small: "n \<le> 16777217 \<Longrightarrow> sint (of_nat n :: 32 word) = int n"
  by (simp add: signed_of_nat signed_take_bit_int_eq_self)

lemma frames_process_event: "frames (snd (process_event ev s)) = frames s"
  by (cases ev) (simp_all add: resize_viewport_eq)

subsection \<open>C2: the viewport is resized once per size\<close>

text \<open>
  Claim C2. Calling \<open>resize_viewport\<close> twice in a row with the same size changes nothing
  the second time: no resolution upload, no viewport call, no update of the cached size.
  A call with a size that differs from the cached one issues exactly the resolution
  upload, the viewport call and the message, and caches the new size. The cached size
  starts at \<open>(-1, -1)\<close>, so from it a call with a non-negative size always applies.
\<close>

theorem resize_viewport_dedup:
  "resize_viewport w h (resize_viewport w h s) = resize_viewport w h s \<and>
   (viewport_width s = w \<and> viewport_height s = h \<longrightarrow> resize_viewport w h s = s) \<and>
   (viewport_width s \<noteq> w \<or> viewport_height s \<noteq> h \<longrightarrow>
      resize_viewport w h s =
        s\<lparr>viewport_width := w, viewport_height := h,
          trace := trace s @
            [GlUniform3f (uniform_res s) (float_of_int w) (float_of_int h) 0,
             GlViewport 0 0 w h, Info_window_size w h]\<rparr>) \<and>
   viewport_width initial_state = - 1 \<and> viewport_height initial_state = - 1 \<and>
   (viewport_width s = - 1 \<and> viewport_height s = - 1 \<and> 0 \<le> w \<and> 0 \<le> h \<longrightarrow>
      viewport_width (resize_viewport w h s) = w \<and>
      viewport_height (resize_viewport w h s) = h \<and>
      trace (resize_viewport w h s) =
        trace s @
          [GlUniform3f (uniform_res s) (float_of_int w) (float_of_int h) 0,
           GlViewport 0 0 w h, Info_window_size w h])"
  by (auto simp: resize_viewport_eq initial_state_def)

theorem resize_viewport_dedup_witness:
  "resize_viewport 640 360 (resize_viewport 640 360 initial_state) =
     resize_viewport 640 360 initial_state \<and>
   viewport_width (resize_viewport 640 360 initial_state) = 640 \<and>
   viewport_height (resize_viewport 640 360 initial_state) = 360 \<and>
   trace (resize_viewport 640 360 initial_state) =
     [GlUniform3f 0 640 360 0, GlViewport 0 0 640 360, Info_window_size 640 360]"
  using resize_viewport_dedup [of 640 360 initial_state]
  by (simp add: initial_state_def float_of_int_exact resize_viewport_eq)

subsection \<open>C1: the frame counter\<close>

text \<open>
  Claim C1, as amended. Start from a state whose counter is 0, as the initial one. Of any
  sequence of calls of \<open>render\<close>, the \<open>k\<close>-th call uploads exactly \<open>k\<close> to the frame-count
  uniform, for every \<open>k\<close> up to \<open>2^24 = 16777216\<close>, whatever the elapsed-time values are;
  the counter after \<open>N\<close> calls is \<open>N\<close> (modulo \<open>2^32\<close>), and neither \<open>resize_viewport\<close> nor
  \<open>process_event\<close> touches it. The bound is that of the type of the uniform: the counter
  is converted to \<^verbatim>\<open>float\<close>, which has 24 significant bits.
\<close>

theorem frame_counter_uploads:
  assumes "frames s = 0" and "0 < k" and "k \<le> length ts" and "k \<le> 16777216"
  shows "calls_of_render k ts s =
      time_upload (ts ! (k - 1)) s @ GlUniform1f (uniform_frame s) (of_nat k) # draw_calls s \<and>
    frames (renders ts s) = of_nat (length ts) \<and>
    frames (resize_viewport w h s') = frames s' \<and>
    frames (snd (process_event ev s')) = frames s'"
proof -
  have "sint (of_nat k :: 32 word) = int k"
    using assms(4) by (simp add: sint_of_nat_small)
  moreover have "float_of_int (int k) = of_nat k"
    using assms(4) by (simp add: float_of_int_exact)
  ultimately show ?thesis
    using assms
    by (simp add: calls_of_render_eq renders_fields resize_viewport_eq frames_process_event)
qed

theorem frame_counter_uploads_witness:
  "calls_of_render 2 [1 / 2, 1 / 4] example_state =
     GlUniform1f 1 (1 / 4) # GlUniform1f 2 2 # draw_calls example_state \<and>
   frames (renders [1 / 2, 1 / 4] example_state) = 2"
  using frame_counter_uploads [of example_state 2 "[1 / 2, 1 / 4]" 0 0 example_state "OtherEvent 0"]
  by (simp add: example_state_def initial_state_def time_upload_def)

text \<open>
  The claim as stated, for every \<open>N\<close>, fails at \<open>N = 16777217\<close>: the counter is 16777217
  there, a number that \<^verbatim>\<open>float\<close> does not have, and the value uploaded is 16777216.
\<close>

lemma length_many_frames: "length many_frames = 16777217"
  by (simp only: many_frames_def length_replicate)

lemma nth_many_frames: "many_frames ! 16777216 = 0"
  unfolding many_frames_def by (rule nth_replicate) simp

theorem frame_counter_uploads_counterexample:
  "calls_of_render 16777217 many_frames example_state =
     GlUniform1f 1 0 # GlUniform1f 2 16777216 # draw_calls example_state \<and>
   calls_of_render 16777217 many_frames example_state \<noteq>
     GlUniform1f 1 0 # GlUniform1f 2 16777217 # draw_calls example_state"
proof -
  have s: "sint (of_nat 16777217 :: 32 word) = 16777217"
    using sint_of_nat_small [of 16777217] by simp
  have "calls_of_render 16777217 many_frames example_state =
      time_upload (many_frames ! (16777217 - 1)) example_state @
        GlUniform1f (uniform_frame example_state)
          (float_of_int (sint (frames example_state + of_nat 16777217))) #
        draw_calls example_state"
    by (rule calls_of_render_eq) (simp_all add: length_many_frames)
  then have "calls_of_render 16777217 many_frames example_state =
      GlUniform1f 1 0 # GlUniform1f 2 16777216 # draw_calls example_state"
    using s
    by (simp add: nth_many_frames example_state_def initial_state_def time_upload_def
        float_of_int_16777217)
  then show ?thesis
    by simp
qed

subsection \<open>C6: the guard of the elapsed-time upload\<close>

text \<open>
  Claim C6. When the location of the elapsed-time uniform is negative, \<open>render\<close> issues
  the upload of the frame count and the drawing calls and nothing else: no call carries
  the elapsed time, and the result does not depend on it. When the location is not
  negative, the first call issued is the upload of the elapsed time to it. \<open>render\<close>
  has no failing branch: it is a total function to states.
\<close>

theorem render_time_upload_guard:
  "(uniform_gtime s < 0 \<longrightarrow>
      trace (render abstime s) =
        trace s @
          GlUniform1f (uniform_frame s) (float_of_int (sint (frames s + 1))) # draw_calls s \<and>
      render abstime s = render 0 s) \<and>
   (0 \<le> uniform_gtime s \<longrightarrow>
      trace (render abstime s) =
        trace s @
          GlUniform1f (uniform_gtime s) abstime #
          GlUniform1f (uniform_frame s) (float_of_int (sint (frames s + 1))) # draw_calls s)"
  by (simp add: render_eq time_upload_def)

theorem render_time_upload_guard_witness:
  "trace (render (3 / 2) (example_state\<lparr>uniform_gtime := - 1\<rparr>)) =
     GlUniform1f 2 1 # draw_calls example_state \<and>
   trace (render (3 / 2) example_state) =
     GlUniform1f 1 (3 / 2) # GlUniform1f 2 1 # draw_calls example_state"
  using render_time_upload_guard [of "example_state\<lparr>uniform_gtime := - 1\<rparr>" "3 / 2"]
    render_time_upload_guard [of example_state "3 / 2"]
  by (simp add: example_state_def initial_state_def draw_calls_def float_of_int_exact render_eq
      time_upload_def)

subsection \<open>C3: uploads to absent uniforms\<close>

text \<open>
  Claim C3 says that no update uploads to a uniform whose location is negative. Only the
  elapsed-time upload is guarded. With the frame-count and resolution uniforms absent,
  \<open>render\<close> still issues \<^verbatim>\<open>glUniform1f(-1, 1.0)\<close> and \<open>resize_viewport\<close> still issues
  \<^verbatim>\<open>glUniform3f(-1, 800.0, 600.0, 0.0)\<close>.
\<close>

theorem absent_uniform_uploads_issued:
  "trace (render 0 absent_state) = GlUniform1f (- 1) 1 # draw_calls absent_state \<and>
   trace (resize_viewport 800 600 absent_state) =
     [GlUniform3f (- 1) 800 600 0, GlViewport 0 0 800 600, Info_window_size 800 600]"
  by (simp add: render_eq resize_viewport_eq absent_state_def initial_state_def time_upload_def
      draw_calls_def float_of_int_exact)

theorem absent_uniform_uploads_issued_witness:
  "GlUniform1f (- 1) 1 \<in> set (trace (render 0 absent_state)) \<and>
   GlUniform3f (- 1) 800 600 0 \<in> set (trace (resize_viewport 800 600 absent_state))"
  using absent_uniform_uploads_issued
  by simp

subsection \<open>The event drain\<close>

text \<open>
  Vocabulary: the events that stop the loop, what one event does to the state, and the
  number of draw calls in a trace.
\<close>

fun is_exit_key :: "xevent \<Rightarrow> bool" where
  "is_exit_key (KeyPress key) = (key = XK_Escape \<or> key = XK_q)"
| "is_exit_key (ConfigureNotify w h) = False"
| "is_exit_key (OtherEvent ty) = False"

fun apply_configure :: "state \<Rightarrow> xevent \<Rightarrow> state" where
  "apply_configure s (ConfigureNotify w h) = resize_viewport w h s"
| "apply_configure s (KeyPress key) = s"
| "apply_configure s (OtherEvent ty) = s"

definition has_exit :: "xevent list \<Rightarrow> bool" where
  "has_exit evs = list_ex is_exit_key evs"

definition draws :: "call list \<Rightarrow> nat" where
  "draws tr = length (filter (\<lambda>c. c = GlDrawArrays 0 4) tr)"

lemma process_event_eq: "process_event ev s = (\<not> is_exit_key ev, apply_configure s ev)"
  by (cases ev) simp_all

lemma apply_configure_x_queue:
  "apply_configure (s\<lparr>x_queue := q\<rparr>) ev = (apply_configure s ev)\<lparr>x_queue := q\<rparr>"
  by (cases ev) (simp_all add: resize_viewport_eq)

lemma foldl_apply_configure_x_queue:
  "foldl apply_configure (s\<lparr>x_queue := q\<rparr>) evs = (foldl apply_configure s evs)\<lparr>x_queue := q\<rparr>"
  by (induction evs arbitrary: s) (simp_all add: apply_configure_x_queue)

lemma process_events_loop_eq:
  "x_queue s = q \<Longrightarrow>
   process_events_loop d s = (d \<or> has_exit q, (foldl apply_configure s q)\<lparr>x_queue := []\<rparr>)"
proof (induction q arbitrary: d s)
  case Nil
  then show ?case
    by (subst process_events_loop.simps) (simp add: has_exit_def)
next
  case (Cons ev rest)
  let ?s' = "apply_configure (s\<lparr>x_queue := rest\<rparr>) ev"
  have q': "x_queue ?s' = rest"
    by (simp add: apply_configure_x_queue)
  have "process_events_loop d s = process_events_loop (if is_exit_key ev then True else d) ?s'"
    using Cons.prems by (subst process_events_loop.simps) (simp add: process_event_eq)
  also have "\<dots> = ((if is_exit_key ev then True else d) \<or> has_exit rest,
      (foldl apply_configure ?s' rest)\<lparr>x_queue := []\<rparr>)"
    by (rule Cons.IH [OF q'])
  finally show ?case
    by (simp add: has_exit_def apply_configure_x_queue foldl_apply_configure_x_queue)
qed

lemma process_events_eq:
  "process_events s =
     (\<not> has_exit (x_queue s), (foldl apply_configure s (x_queue s))\<lparr>x_queue := []\<rparr>)"
  by (simp add: process_events_def process_events_loop_eq)

subsection \<open>C10: the drain processes every queued event\<close>

text \<open>
  Claim C10. \<open>process_events\<close> dequeues every pending event (the queue is empty when it
  returns) and processes each of them, in order, whether or not an exit key came earlier
  in the batch: every \<^verbatim>\<open>ConfigureNotify\<close> of the batch reaches \<open>resize_viewport\<close>. The
  result asks to stop (is \<open>False\<close>) if and only if some drained event is a key press that
  decodes to Escape or "q".
\<close>

theorem process_events_drains_all:
  "process_events s =
     (\<not> list_ex is_exit_key (x_queue s),
      (foldl apply_configure s (x_queue s))\<lparr>x_queue := []\<rparr>) \<and>
   x_queue (snd (process_events s)) = [] \<and>
   (\<forall>key. is_exit_key (KeyPress key) = (key = XK_Escape \<or> key = XK_q)) \<and>
   (\<forall>w h s'. apply_configure s' (ConfigureNotify w h) = resize_viewport w h s')"
  by (simp add: process_events_eq has_exit_def)

theorem process_events_drains_all_witness:
  "process_events (example_state\<lparr>x_queue := [KeyPress XK_q, ConfigureNotify 800 600]\<rparr>) =
     (False,
      example_state\<lparr>viewport_width := 800, viewport_height := 600,
        trace := [GlUniform3f 0 800 600 0, GlViewport 0 0 800 600, Info_window_size 800 600]\<rparr>)"
  using process_events_drains_all
    [of "example_state\<lparr>x_queue := [KeyPress XK_q, ConfigureNotify 800 600]\<rparr>"]
  by (simp add: example_state_def initial_state_def resize_viewport_eq float_of_int_exact)

subsection \<open>C5: the loop stops on the first exit key\<close>

lemma draws_append: "draws (xs @ ys) = draws xs + draws ys"
  by (simp add: draws_def)

lemma draws_apply_configure: "draws (trace (apply_configure s ev)) = draws (trace s)"
  by (cases ev) (simp_all add: resize_viewport_eq draws_def)

lemma draws_foldl_apply_configure: "draws (trace (foldl apply_configure s evs)) = draws (trace s)"
  by (induction evs arbitrary: s) (simp_all add: draws_apply_configure)

lemma draws_render: "draws (trace (render t s)) = Suc (draws (trace s))"
  by (simp add: render_eq draws_def time_upload_def draw_calls_def)

lemma main_loop_stops:
  "x_queue s = [] \<Longrightarrow> \<forall>b\<in>set its. snd b \<noteq> None \<Longrightarrow>
   fst (main_loop start cur its s) =
     (if list_ex (\<lambda>b. has_exit (fst b)) its then STOPPED else RUNNING) \<and>
   draws (trace (snd (main_loop start cur its s))) =
     draws (trace s) + length (takeWhile (\<lambda>b. \<not> has_exit (fst b)) its)"
proof (induction its arbitrary: s cur)
  case Nil
  then show ?case by simp
next
  case (Cons b rest)
  obtain arrived clock where b: "b = (arrived, clock)"
    by (cases b)
  from Cons.prems(2) b obtain t where clock: "clock = Some t"
    by auto
  let ?s1 = "(foldl apply_configure (s\<lparr>x_queue := arrived\<rparr>) arrived)\<lparr>x_queue := []\<rparr>"
  have pe: "process_events (s\<lparr>x_queue := x_queue s @ arrived\<rparr>) = (\<not> has_exit arrived, ?s1)"
    using Cons.prems(1) by (simp add: process_events_eq)
  have d1: "draws (trace ?s1) = draws (trace s)"
    by (simp add: draws_foldl_apply_configure)
  show ?case
  proof (cases "has_exit arrived")
    case True
    then show ?thesis
      using pe d1 by (simp add: b)
  next
    case False
    let ?s2 = "render (float_of_double (timespec_diff start cur)) ?s1"
    have q2: "x_queue ?s2 = []"
      by (simp add: render_eq)
    have rest: "\<forall>b\<in>set rest. snd b \<noteq> None"
      using Cons.prems(2) by simp
    have step: "main_loop start cur (b # rest) s = main_loop start t rest ?s2"
      using pe False by (simp add: b clock)
    have d2: "draws (trace ?s2) = Suc (draws (trace s))"
      using d1 by (simp add: draws_render)
    from Cons.IH [OF q2 rest, of t] step d2 False show ?thesis
      by (simp add: b)
  qed
qed

text \<open>
  Claim C5. Let the queue be empty when the loop starts and let the clock never fail.
  The loop ends in \<open>STOPPED\<close> exactly when some iteration's drain contains a key press
  that decodes to Escape or "q", and it stops at the first such iteration: the number of
  draw calls issued is the number of iterations before it, so none is issued on or after
  it. A key press of any other key and an event of any other type leave the state as it
  is and let the loop go on; a configure event lets the loop go on as well.
\<close>

theorem main_loop_stops_on_exit_key:
  "(x_queue s = [] \<and> (\<forall>b\<in>set its. snd b \<noteq> None) \<longrightarrow>
      fst (main_loop start cur its s) =
        (if list_ex (\<lambda>b. list_ex is_exit_key (fst b)) its then STOPPED else RUNNING) \<and>
      draws (trace (snd (main_loop start cur its s))) =
        draws (trace s) + length (takeWhile (\<lambda>b. \<not> list_ex is_exit_key (fst b)) its)) \<and>
   (key \<noteq> XK_Escape \<and> key \<noteq> XK_q \<longrightarrow> process_event (KeyPress key) s = (True, s)) \<and>
   (key = XK_Escape \<or> key = XK_q \<longrightarrow> process_event (KeyPress key) s = (False, s)) \<and>
   process_event (OtherEvent ty) s = (True, s) \<and>
   fst (process_event (ConfigureNotify w h) s) = True"
  using main_loop_stops [of s its start cur]
  by (auto simp: has_exit_def)

theorem main_loop_stops_on_exit_key_witness:
  "fst (main_loop \<lparr>tv_sec = 100, tv_nsec = 0\<rparr> \<lparr>tv_sec = 100, tv_nsec = 0\<rparr>
      [([OtherEvent 12, KeyPress 97], Some \<lparr>tv_sec = 100, tv_nsec = 5\<rparr>),
       ([KeyPress XK_q], Some \<lparr>tv_sec = 100, tv_nsec = 9\<rparr>),
       ([], Some \<lparr>tv_sec = 101, tv_nsec = 0\<rparr>)] example_state) = STOPPED \<and>
   draws (trace (snd (main_loop \<lparr>tv_sec = 100, tv_nsec = 0\<rparr> \<lparr>tv_sec = 100, tv_nsec = 0\<rparr>
      [([OtherEvent 12, KeyPress 97], Some \<lparr>tv_sec = 100, tv_nsec = 5\<rparr>),
       ([KeyPress XK_q], Some \<lparr>tv_sec = 100, tv_nsec = 9\<rparr>),
       ([], Some \<lparr>tv_sec = 101, tv_nsec = 0\<rparr>)] example_state))) = 1 \<and>
   process_event (KeyPress 97) example_state = (True, example_state)"
  using main_loop_stops_on_exit_key [of example_state
      "[([OtherEvent 12, KeyPress 97], Some \<lparr>tv_sec = 100, tv_nsec = 5\<rparr>),
        ([KeyPress XK_q], Some \<lparr>tv_sec = 100, tv_nsec = 9\<rparr>),
        ([], Some \<lparr>tv_sec = 101, tv_nsec = 0\<rparr>)]"
      "\<lparr>tv_sec = 100, tv_nsec = 0\<rparr>" "\<lparr>tv_sec = 100, tv_nsec = 0\<rparr>" 97 0 0 0]
  by (simp add: example_state_def initial_state_def XK_q_def XK_Escape_def draws_def)

subsection \<open>C4: the elapsed time of the first frame\<close>

lemmas float_eval =
  float_of_double_def timespec_diff_def double_add_def double_div_def double_of_int_def
  round_ratio_def round_at_def round_div_def round_half_even_def leading_exponent_def
  leading_exponent_from_def rat_of_ratio_def bitlen.simps

lemma elapsed_from_zeros:
  "float_of_double (timespec_diff \<lparr>tv_sec = 100, tv_nsec = 0\<rparr> \<lparr>tv_sec = 0, tv_nsec = 0\<rparr>) =
     - 100"
  by (simp add: float_eval)

lemma elapsed_from_1000:
  "float_of_double (timespec_diff \<lparr>tv_sec = 100, tv_nsec = 0\<rparr> \<lparr>tv_sec = 1000, tv_nsec = 0\<rparr>) =
     900"
  by (simp add: float_eval)

lemma elapsed_16ms:
  "float_of_double
     (timespec_diff \<lparr>tv_sec = 100, tv_nsec = 0\<rparr> \<lparr>tv_sec = 100, tv_nsec = 16000000\<rparr>) =
     8589935 / 536870912"
  by (simp add: float_eval)

text \<open>
  Claim C4 says that the elapsed time handed to \<open>render\<close> is never negative and never
  decreases, the first frame included. \<^verbatim>\<open>main\<close> samples \<open>cur\<close> after \<open>render\<close>, so the
  first frame is rendered with whatever \<open>cur\<close> held before. With the clock started at
  100 s: if the slot held zeros, the first frame gets \<open>-100\<close>; if it held 1000 s, the
  first frame gets \<open>900\<close> and the second, 16 ms after the start, gets
  \<open>8589935 / 2^29\<close>, which is \<^verbatim>\<open>(float)0.016\<close>.
\<close>

theorem first_frame_elapsed_time:
  "trace (snd (main_loop \<lparr>tv_sec = 100, tv_nsec = 0\<rparr> \<lparr>tv_sec = 0, tv_nsec = 0\<rparr>
      [([], Some \<lparr>tv_sec = 100, tv_nsec = 16000000\<rparr>)] example_state)) =
     GlUniform1f 1 (- 100) # GlUniform1f 2 1 # draw_calls example_state \<and>
   trace (snd (main_loop \<lparr>tv_sec = 100, tv_nsec = 0\<rparr> \<lparr>tv_sec = 1000, tv_nsec = 0\<rparr>
      [([], Some \<lparr>tv_sec = 100, tv_nsec = 16000000\<rparr>),
       ([], Some \<lparr>tv_sec = 100, tv_nsec = 32000000\<rparr>)] example_state)) =
     (GlUniform1f 1 900 # GlUniform1f 2 1 # draw_calls example_state) @
     (GlUniform1f 1 (8589935 / 536870912) # GlUniform1f 2 2 # draw_calls example_state)"
  by (simp add: process_events_eq render_eq elapsed_from_zeros elapsed_from_1000 elapsed_16ms
      time_upload_def draw_calls_def example_state_def initial_state_def float_of_int_exact
      has_exit_def)

theorem first_frame_elapsed_time_witness:
  "GlUniform1f 1 (- 100) \<in> set (trace (snd (main_loop \<lparr>tv_sec = 100, tv_nsec = 0\<rparr>
      \<lparr>tv_sec = 0, tv_nsec = 0\<rparr>
      [([], Some \<lparr>tv_sec = 100, tv_nsec = 16000000\<rparr>)] example_state)))"
  using first_frame_elapsed_time
  by simp

subsection \<open>Start-up and teardown\<close>

text \<open>
  Vocabulary: the trace a start-up leaves behind, whether it succeeded or died; the calls
  that create the window; the calls of \<open>shutdown\<close>; and an environment in which every
  call succeeds, on a display of 1920 by 1080 pixels.
\<close>

fun trace_of :: "fatal + state \<Rightarrow> call list" where
  "trace_of (Inl (msg, s)) = trace s"
| "trace_of (Inr s) = trace s"

fun is_create_window :: "call \<Rightarrow> bool" where
  "is_create_window (XCreateWindow x y w h) = True"
| "is_create_window c = False"

fun is_teardown :: "call \<Rightarrow> bool" where
  "is_teardown GlDeleteProgram = True"
| "is_teardown EglDestroyContext = True"
| "is_teardown EglDestroySurface = True"
| "is_teardown EglTerminate = True"
| "is_teardown XDestroyWindow = True"
| "is_teardown XCloseDisplay = True"
| "is_teardown c = False"



definition given_source :: "nat \<Rightarrow> string list \<Rightarrow> string" where
  "given_source n srcs =
     shader_source (take n srcs) (map (\<lambda>src. glsizei_of_size (strlen src)) (take n srcs))"

definition reaches_window :: "env \<Rightarrow> bool" where
  "reaches_window e =
     (x_open_display e \<and> egl_get_display e \<and> egl_bind_api e \<and> egl_initialize e \<and>
      egl_choose_config e \<and> egl_create_context e \<and> egl_get_config_attrib e \<and>
      x_get_visual_info e)"


definition shutdown_calls :: "call list" where
  "shutdown_calls =
     [GlDeleteProgram, EglDestroyContext, EglDestroySurface, EglTerminate, XDestroyWindow,
      XCloseDisplay]"

definition example_env :: env where
  "example_env =
     \<lparr>x_open_display = True, egl_get_display = True, egl_bind_api = True,
      egl_initialize = True, egl_choose_config = True, egl_create_context = True,
      egl_get_config_attrib = True, x_get_visual_info = True,
      display_width = 1920, display_height = 1080, egl_create_window_surface = True,
      compile_status = (\<lambda>ty src. True), shader_info_log = (\<lambda>ty src. []),
      link_status = True, program_info_log = [],
      attrib_location = (\<lambda>name. 0),
      uniform_location =
        (\<lambda>name. if name = ''iResolution'' then 0 else if name = ''iTime'' then 1
           else if name = ''iFrame'' then 2 else - 1),
      x_get_window_attributes = Some (640, 360)\<rparr>"

text \<open>The same environment with a driver that rejects every fragment shader.\<close>

definition broken_shader_env :: env where
  "broken_shader_env =
     example_env\<lparr>compile_status := (\<lambda>ty src. ty = GL_VERTEX_SHADER),
       shader_info_log := (\<lambda>ty src. ''ERROR: 0:1: syntax error'')\<rparr>"

definition red_body :: string where
  "red_body = ''void mainImage(out vec4 c, in vec2 p){c=vec4(1.0,0.0,0.0,1.0);}''"

subsection \<open>C8: the size of the window\<close>

lemma compile_shader_filters:
  "filter is_create_window (trace_of (compile_shader e ty n srcs s)) =
     filter is_create_window (trace s) \<and>
   filter is_teardown (trace_of (compile_shader e ty n srcs s)) = filter is_teardown (trace s)"
  by (simp add: compile_shader_def Let_def emit_def die_def)

lemma compile_shader_Inr:
  "compile_shader e ty n srcs s = Inr s' \<Longrightarrow> trace_of (compile_shader e ty n srcs s) = trace s'"
  by simp

lemma link_and_locate_filters:
  "filter is_create_window (trace_of (link_and_locate e s)) = filter is_create_window (trace s) \<and>
   filter is_teardown (trace_of (link_and_locate e s)) = filter is_teardown (trace s)"
  by (simp add: link_and_locate_def Let_def emit_def die_def resize_viewport_eq
      split: option.split prod.split)

lemma create_window_filters:
  "filter is_create_window
     (trace_of (create_window e width height fullscreen body s)) =
     filter is_create_window (trace s) @
       [XCreateWindow 0 0 (if fullscreen then display_width e else width)
          (if fullscreen then display_height e else height)] \<and>
   filter is_teardown (trace_of (create_window e width height fullscreen body s)) =
     filter is_teardown (trace s)"
proof -
  let ?s7 = "emit EglMakeCurrent (emit EglCreateWindowSurface (emit XFlush (emit XMapWindow
    (emit (XStoreName ''esshader'') (emit (XCreateWindow 0 0
      (if fullscreen then display_width e else width)
      (if fullscreen then display_height e else height)) (emit XCreateColormap s))))))"
  let ?v = "compile_shader e GL_VERTEX_SHADER 2 [common_shader_header, vertex_shader_body] ?s7"
  have v: "filter is_create_window (trace_of ?v) = filter is_create_window (trace ?s7) \<and>
      filter is_teardown (trace_of ?v) = filter is_teardown (trace ?s7)"
    by (rule compile_shader_filters)
  have s7: "filter is_create_window (trace ?s7) =
      filter is_create_window (trace s) @
        [XCreateWindow 0 0 (if fullscreen then display_width e else width)
          (if fullscreen then display_height e else height)] \<and>
      filter is_teardown (trace ?s7) = filter is_teardown (trace s)"
    by (simp add: emit_def)
  show ?thesis
  proof (cases "egl_create_window_surface e")
    case False
    then show ?thesis
      by (simp add: create_window_def Let_def emit_def die_def)
  next
    case True
    show ?thesis
    proof (cases ?v)
      case (Inl f)
      then have "create_window e width height fullscreen body s = ?v"
        using True by (simp add: create_window_def Let_def)
      with v s7 show ?thesis
        by simp
    next
      case (Inr s8)
      let ?f = "compile_shader e GL_FRAGMENT_SHADER 4 (fragment_sources body) s8"
      have s8: "trace s8 = trace_of ?v"
        using Inr by simp
      have f: "filter is_create_window (trace_of ?f) = filter is_create_window (trace s8) \<and>
          filter is_teardown (trace_of ?f) = filter is_teardown (trace s8)"
        by (rule compile_shader_filters)
      show ?thesis
      proof (cases ?f)
        case (Inl g)
        then have "create_window e width height fullscreen body s = ?f"
          using True Inr by (simp add: create_window_def Let_def)
        with f s8 v s7 show ?thesis
          by simp
      next
        case (Inr s9)
        then have "create_window e width height fullscreen body s = link_and_locate e s9"
          using True \<open>?v = Inr s8\<close> by (simp add: create_window_def Let_def)
        moreover have "trace s9 = trace_of ?f"
          using Inr by simp
        ultimately show ?thesis
          using f s8 v s7 link_and_locate_filters [of e s9] by simp
      qed
    qed
  qed
qed

lemma startup_reaches_window:
  "reaches_window e \<Longrightarrow>
   startup e width height fullscreen body s =
     create_window e width height fullscreen body
       (emit XGetVisualInfo (emit EglGetConfigAttrib (emit EglCreateContext
         (emit EglChooseConfig (emit EglInitialize (emit EglBindAPI (emit EglGetDisplay
           (emit XOpenDisplay s))))))))"
  by (simp add: reaches_window_def startup_def Let_def)

lemma startup_filter_teardown:
  "filter is_teardown (trace_of (startup e width height fullscreen body s)) =
     filter is_teardown (trace s)"
proof (cases "reaches_window e")
  case True
  then show ?thesis
    by (simp add: startup_reaches_window create_window_filters) (simp add: emit_def)
next
  case False
  then show ?thesis
    by (auto simp: reaches_window_def startup_def Let_def emit_def die_def)
qed

lemma window_size_general:
  "reaches_window e \<Longrightarrow>
   filter is_create_window (trace_of (startup e width height fullscreen body s)) =
     filter is_create_window (trace s) @
       [XCreateWindow 0 0 (if fullscreen then display_width e else width)
          (if fullscreen then display_height e else height)]"
  by (simp add: startup_reaches_window create_window_filters) (simp add: emit_def)

text \<open>
  Claim C8. Whenever \<open>startup\<close> gets as far as creating the window, it creates exactly
  one, and its size is the size of the display when the fullscreen flag is set (the
  requested width and height are not used) and the requested width and height when it is
  not.
\<close>

theorem window_size:
  "reaches_window e \<longrightarrow>
     filter is_create_window (trace_of (startup e width height fullscreen body s)) =
       filter is_create_window (trace s) @
         [if fullscreen then XCreateWindow 0 0 (display_width e) (display_height e)
          else XCreateWindow 0 0 width height]"
  using window_size_general [of e width height fullscreen body s]
  by simp

theorem window_size_witness:
  "filter is_create_window (trace_of (startup example_env 640 360 True red_body initial_state)) =
     [XCreateWindow 0 0 1920 1080] \<and>
   filter is_create_window (trace_of (startup example_env 640 360 False red_body initial_state)) =
     [XCreateWindow 0 0 640 360]"
  using window_size [of example_env 640 360 True red_body initial_state]
    window_size [of example_env 640 360 False red_body initial_state]
  by (simp add: reaches_window_def example_env_def initial_state_def)

subsection \<open>C7: the assembled fragment source\<close>





lemma compile_shader_ok:
  "compile_status e ty (given_source n srcs) \<Longrightarrow> \<exists>s'. compile_shader e ty n srcs s = Inr s'"
  by (simp add: compile_shader_def Let_def given_source_def)

lemma compile_shader_fails:
  "\<not> compile_status e ty (given_source n srcs) \<Longrightarrow>
   \<exists>s'. compile_shader e ty n srcs s = Inl (''Error compiling shader.\<newline>'', s')"
  by (simp add: compile_shader_def Let_def given_source_def die_def)

lemma link_and_locate_ok:
  "link_status e \<Longrightarrow> x_get_window_attributes e = Some gwa \<Longrightarrow>
   \<exists>s'. link_and_locate e s = Inr s'"
  by (cases gwa) (simp add: link_and_locate_def Let_def)

lemma create_window_ok:
  assumes "egl_create_window_surface e"
    and "compile_status e GL_VERTEX_SHADER (given_source 2 [common_shader_header, vertex_shader_body])"
    and "compile_status e GL_FRAGMENT_SHADER (given_source 4 (fragment_sources body))"
    and "link_status e" and "x_get_window_attributes e = Some gwa"
  shows "\<exists>s'. create_window e width height fullscreen body s = Inr s'"
proof -
  let ?s7 = "emit EglMakeCurrent (emit EglCreateWindowSurface (emit XFlush (emit XMapWindow
    (emit (XStoreName ''esshader'') (emit (XCreateWindow 0 0
      (if fullscreen then display_width e else width)
      (if fullscreen then display_height e else height)) (emit XCreateColormap s))))))"
  from compile_shader_ok [OF assms(2)] obtain s8
    where v: "compile_shader e GL_VERTEX_SHADER 2 [common_shader_header, vertex_shader_body] ?s7 =
      Inr s8"
    by blast
  from compile_shader_ok [OF assms(3)] obtain s9
    where f: "compile_shader e GL_FRAGMENT_SHADER 4 (fragment_sources body) s8 = Inr s9"
    by blast
  from link_and_locate_ok [OF assms(4,5)] obtain s' where l: "link_and_locate e s9 = Inr s'"
    by blast
  have "create_window e width height fullscreen body s = Inr s'"
    using assms(1) v f l by (simp add: create_window_def Let_def)
  then show ?thesis ..
qed

lemma create_window_fragment_fails:
  assumes "egl_create_window_surface e"
    and "compile_status e GL_VERTEX_SHADER (given_source 2 [common_shader_header, vertex_shader_body])"
    and "\<not> compile_status e GL_FRAGMENT_SHADER (given_source 4 (fragment_sources body))"
  shows "\<exists>s'. create_window e width height fullscreen body s =
    Inl (''Error compiling shader.\<newline>'', s')"
proof -
  let ?s7 = "emit EglMakeCurrent (emit EglCreateWindowSurface (emit XFlush (emit XMapWindow
    (emit (XStoreName ''esshader'') (emit (XCreateWindow 0 0
      (if fullscreen then display_width e else width)
      (if fullscreen then display_height e else height)) (emit XCreateColormap s))))))"
  from compile_shader_ok [OF assms(2)] obtain s8
    where v: "compile_shader e GL_VERTEX_SHADER 2 [common_shader_header, vertex_shader_body] ?s7 =
      Inr s8"
    by blast
  from compile_shader_fails [OF assms(3)] obtain s9
    where f: "compile_shader e GL_FRAGMENT_SHADER 4 (fragment_sources body) s8 =
      Inl (''Error compiling shader.\<newline>'', s9)"
    by blast
  have "create_window e width height fullscreen body s =
      Inl (''Error compiling shader.\<newline>'', s9)"
    using assms(1) v f by (simp add: create_window_def Let_def)
  then show ?thesis ..
qed

lemma example_env_flags:
  "reaches_window example_env \<and> egl_create_window_surface example_env \<and>
   link_status example_env \<and> x_get_window_attributes example_env = Some (640, 360) \<and>
   compile_status example_env ty src"
  by (simp add: example_env_def reaches_window_def)

lemma broken_shader_env_flags:
  "reaches_window broken_shader_env \<and> egl_create_window_surface broken_shader_env \<and>
   compile_status broken_shader_env GL_VERTEX_SHADER src \<and>
   \<not> compile_status broken_shader_env GL_FRAGMENT_SHADER src"
  by (simp add: broken_shader_env_def example_env_def reaches_window_def)








subsection \<open>C9: teardown\<close>

lemma shutdown_trace: "trace (shutdown s) = trace s @ shutdown_calls"
  by (simp add: shutdown_def shutdown_calls_def emit_def)

lemma filter_teardown_apply_configure:
  "filter is_teardown (trace (apply_configure s ev)) = filter is_teardown (trace s)"
  by (cases ev) (simp_all add: resize_viewport_eq)

lemma filter_teardown_foldl_apply_configure:
  "filter is_teardown (trace (foldl apply_configure s evs)) = filter is_teardown (trace s)"
  by (induction evs arbitrary: s) (simp_all add: filter_teardown_apply_configure)

lemma filter_teardown_process_events:
  "filter is_teardown (trace (snd (process_events s))) = filter is_teardown (trace s)"
  by (simp add: process_events_eq filter_teardown_foldl_apply_configure)

lemma filter_teardown_render:
  "filter is_teardown (trace (render t s)) = filter is_teardown (trace s)"
  by (simp add: render_eq time_upload_def draw_calls_def)

lemma filter_teardown_main_loop:
  "filter is_teardown (trace (snd (main_loop start cur its s))) = filter is_teardown (trace s)"
proof (induction its arbitrary: s cur)
  case Nil
  show ?case by simp
next
  case (Cons b rest)
  obtain arrived clock where b: "b = (arrived, clock)"
    by (cases b)
  obtain ok s1 where pe: "process_events (s\<lparr>x_queue := x_queue s @ arrived\<rparr>) = (ok, s1)"
    by (cases "process_events (s\<lparr>x_queue := x_queue s @ arrived\<rparr>)")
  have s1: "filter is_teardown (trace s1) = filter is_teardown (trace s)"
    using filter_teardown_process_events [of "s\<lparr>x_queue := x_queue s @ arrived\<rparr>"] pe
    by simp
  show ?case
  proof (cases ok)
    case False
    then show ?thesis
      using pe s1 by (simp add: b)
  next
    case True
    let ?s2 = "render (float_of_double (timespec_diff start cur)) s1"
    have s2: "filter is_teardown (trace ?s2) = filter is_teardown (trace s)"
      using s1 by (simp add: filter_teardown_render)
    show ?thesis
    proof (cases clock)
      case None
      then show ?thesis
        using pe True s2 by (simp add: b emit_def Let_def)
    next
      case (Some t)
      then show ?thesis
        using pe True s2 Cons.IH [of t ?s2] by (simp add: b)
    qed
  qed
qed

lemma filter_teardown_shutdown_calls: "filter is_teardown shutdown_calls = shutdown_calls"
  by (simp add: shutdown_calls_def)

text \<open>
  Claim C9, as amended. \<open>shutdown\<close> issues its six calls in the order: delete the program,
  destroy the context, destroy the surface, terminate EGL, destroy the window, close the
  display; it looks at the result of none of them. When the process ends through the
  \<^verbatim>\<open>return 0\<close> after the loop, these six calls are the last calls of the run and no
  other call of the run is one of them: teardown has run exactly once. When the process
  ends in any other way (a \<^verbatim>\<open>die\<close> during start-up, at the clock, or in the loop), no
  teardown call has been issued.
\<close>

theorem teardown_on_normal_exit:
  "trace (shutdown s) =
     trace s @
       [GlDeleteProgram, EglDestroyContext, EglDestroySurface, EglTerminate, XDestroyWindow,
        XCloseDisplay] \<and>
   (fst (main e width height fullscreen body start_clock cur0 its) = Exit_success \<longrightarrow>
      (\<exists>before.
         snd (main e width height fullscreen body start_clock cur0 its) =
           before @
             [GlDeleteProgram, EglDestroyContext, EglDestroySurface, EglTerminate,
              XDestroyWindow, XCloseDisplay] \<and>
         filter is_teardown before = [])) \<and>
   (fst (main e width height fullscreen body start_clock cur0 its) \<noteq> Exit_success \<longrightarrow>
      filter is_teardown (snd (main e width height fullscreen body start_clock cur0 its)) = [])"
proof -
  let ?st = "startup e width height fullscreen body initial_state"
  have st: "filter is_teardown (trace_of ?st) = []"
    by (simp add: startup_filter_teardown) (simp add: initial_state_def)
  have a: "trace (shutdown s) = trace s @ shutdown_calls"
    by (rule shutdown_trace)
  have b: "(fst (main e width height fullscreen body start_clock cur0 its) = Exit_success \<longrightarrow>
      (\<exists>before.
         snd (main e width height fullscreen body start_clock cur0 its) =
           before @ shutdown_calls \<and> filter is_teardown before = [])) \<and>
    (fst (main e width height fullscreen body start_clock cur0 its) \<noteq> Exit_success \<longrightarrow>
      filter is_teardown (snd (main e width height fullscreen body start_clock cur0 its)) = [])"
  proof (cases ?st)
    case (Inl f)
    then show ?thesis
      using st by (cases f) (simp add: main_def)
  next
    case (Inr s0)
    then have s0: "filter is_teardown (trace s0) = []"
      using st by simp
    show ?thesis
    proof (cases start_clock)
      case None
      then show ?thesis
        using Inr s0 by (simp add: main_def emit_def)
    next
      case (Some start)
      obtain ls s' where ml: "main_loop start cur0 its s0 = (ls, s')"
        by (cases "main_loop start cur0 its s0")
      have s': "filter is_teardown (trace s') = []"
        using filter_teardown_main_loop [of start cur0 its s0] ml s0 by simp
      show ?thesis
        using Inr Some ml s'
        by (cases ls) (simp_all add: main_def shutdown_trace)
    qed
  qed
  from a b show ?thesis
    by (simp add: shutdown_calls_def)
qed

theorem teardown_on_normal_exit_witness:
  "fst (main example_env 640 360 False red_body (Some \<lparr>tv_sec = 100, tv_nsec = 0\<rparr>)
      \<lparr>tv_sec = 100, tv_nsec = 0\<rparr> [([KeyPress XK_q], None)]) = Exit_success \<and>
   filter is_teardown
     (snd (main example_env 640 360 False red_body (Some \<lparr>tv_sec = 100, tv_nsec = 0\<rparr>)
        \<lparr>tv_sec = 100, tv_nsec = 0\<rparr> [([KeyPress XK_q], None)])) =
     [GlDeleteProgram, EglDestroyContext, EglDestroySurface, EglTerminate, XDestroyWindow,
      XCloseDisplay]"
proof -
  let ?m = "main example_env 640 360 False red_body (Some \<lparr>tv_sec = 100, tv_nsec = 0\<rparr>)
      \<lparr>tv_sec = 100, tv_nsec = 0\<rparr> [([KeyPress XK_q], None)]"
  have r: "reaches_window example_env"
    using example_env_flags by simp
  have "\<exists>s'. startup example_env 640 360 False red_body initial_state = Inr s'"
    unfolding startup_reaches_window [OF r]
    by (rule create_window_ok [where gwa = "(640, 360)"]) (simp_all add: example_env_flags)
  then obtain s0 where s0: "startup example_env 640 360 False red_body initial_state = Inr s0"
    by blast
  have "fst (process_events (s0\<lparr>x_queue := x_queue s0 @ [KeyPress XK_q]\<rparr>)) = False"
    by (simp add: process_events_eq has_exit_def)
  then have "fst (main_loop \<lparr>tv_sec = 100, tv_nsec = 0\<rparr> \<lparr>tv_sec = 100, tv_nsec = 0\<rparr>
      [([KeyPress XK_q], None)] s0) = STOPPED"
    by (simp add: split_beta)
  then have ok: "fst ?m = Exit_success"
    using s0 by (simp add: main_def split_beta del: main_loop.simps split: loop_state.split)
  from teardown_on_normal_exit
    [of initial_state example_env 640 360 False red_body "Some \<lparr>tv_sec = 100, tv_nsec = 0\<rparr>"
      "\<lparr>tv_sec = 100, tv_nsec = 0\<rparr>" "[([KeyPress XK_q], None)]"] ok
  obtain before where "snd ?m = before @ shutdown_calls" and "filter is_teardown before = []"
    by (auto simp: shutdown_calls_def)
  then have "filter is_teardown (snd ?m) = shutdown_calls"
    by (simp add: filter_teardown_shutdown_calls)
  with ok show ?thesis
    by (simp add: shutdown_calls_def)
qed

text \<open>
  The claim as stated, teardown at every process exit, fails when the user's shader does
  not compile: the process exits through \<^verbatim>\<open>die\<close> with the context, the surface and the
  window created and none of them destroyed.
\<close>

theorem teardown_counterexample:
  "fst (main broken_shader_env 640 360 False ''void mainImage(''
      (Some \<lparr>tv_sec = 100, tv_nsec = 0\<rparr>) \<lparr>tv_sec = 100, tv_nsec = 0\<rparr>
      [([KeyPress XK_q], None)]) = Exit_failure ''Error compiling shader.\<newline>'' \<and>
   XCreateWindow 0 0 640 360 \<in>
     set (snd (main broken_shader_env 640 360 False ''void mainImage(''
       (Some \<lparr>tv_sec = 100, tv_nsec = 0\<rparr>) \<lparr>tv_sec = 100, tv_nsec = 0\<rparr>
       [([KeyPress XK_q], None)])) \<and>
   filter is_teardown
     (snd (main broken_shader_env 640 360 False ''void mainImage(''
       (Some \<lparr>tv_sec = 100, tv_nsec = 0\<rparr>) \<lparr>tv_sec = 100, tv_nsec = 0\<rparr>
       [([KeyPress XK_q], None)])) = []"
proof -
  let ?m = "main broken_shader_env 640 360 False ''void mainImage(''
      (Some \<lparr>tv_sec = 100, tv_nsec = 0\<rparr>) \<lparr>tv_sec = 100, tv_nsec = 0\<rparr>
      [([KeyPress XK_q], None)]"
  let ?st = "startup broken_shader_env 640 360 False ''void mainImage('' initial_state"
  have r: "reaches_window broken_shader_env"
    using broken_shader_env_flags by simp
  have "\<exists>s'. ?st = Inl (''Error compiling shader.\<newline>'', s')"
    unfolding startup_reaches_window [OF r]
    by (rule create_window_fragment_fails) (simp_all add: broken_shader_env_flags)
  then obtain s' where s': "?st = Inl (''Error compiling shader.\<newline>'', s')"
    by blast
  then have m: "?m = (Exit_failure ''Error compiling shader.\<newline>'', trace s')"
    by (simp add: main_def)
  have "filter is_create_window (trace_of ?st) = [XCreateWindow 0 0 640 360]"
    using window_size_general [OF r, of 640 360 False "''void mainImage(''" initial_state]
    by (simp add: initial_state_def)
  then have "filter is_create_window (trace s') = [XCreateWindow 0 0 640 360]"
    using s' by simp
  then have "XCreateWindow 0 0 640 360 \<in> set (filter is_create_window (trace s'))"
    by simp
  then have w: "XCreateWindow 0 0 640 360 \<in> set (trace s')"
    by simp
  have "filter is_teardown (trace_of ?st) = []"
    by (simp add: startup_filter_teardown) (simp add: initial_state_def)
  then have "filter is_teardown (trace s') = []"
    using s' by simp
  with m w show ?thesis
    by simp
qed

end
